theory Spec2Isabelle
  imports Complex_Main "HOL-Library.Multiset"
begin

section \<open>Values, hyperparameter dictionaries and errors\<close>

text \<open>
  Python values that occur in hyperparameter dictionaries: strings, (unbounded) integers and
  floats. Floats are modelled by the real numbers they denote; not-a-number and the infinities
  are outside the model.
\<close>

datatype pyval = PyStr string | PyInt int | PyFloat real

text \<open>A Python \<open>dict\<close> with string keys, in insertion order.\<close>

type_synonym hyperparam_dict = "(string \<times> pyval) list"

text \<open>
  The exceptions the surrogate can end with. \<open>ValueError\<close> is the validation error that
  \<open>prepare_dataset_for_training\<close> raises itself (it carries the offending test fraction);
  an exception raised inside an external library (scikit-learn, XGBoost, NumPy) is a
  \<open>LibraryError\<close> with the library's message.
\<close>

datatype error =
    ValueError real
  | NameError string
  | UnboundLocalError string
  | KeyError
  | IndexError
  | AttributeError
  | TypeError
  | FileNotFoundError "string list"
  | LibraryError string

section \<open>Tables\<close>

text \<open>
  A pandas \<open>DataFrame\<close>: the column labels in order, and the rows in order, each row its
  index label together with one cell per column.
\<close>

datatype cell = Num real | Cat string

text \<open>A column label is any Python value: a string, or a position when pandas numbers the columns.\<close>

type_synonym label = pyval

record dataframe =
  columns :: "label list"
  rows :: "(int \<times> cell list) list"

text \<open>
  The cells of one row that stand under the column label \<open>h\<close>; \<open>cs\<close> are the column labels
  of the row's table. A label that names several columns selects all of them, in table order.
\<close>

definition pick :: "label list \<Rightarrow> 'a list \<Rightarrow> label \<Rightarrow> 'a list" where
  "pick cs xs h = map snd (filter (\<lambda>(c, x). c = h) (zip cs xs))"

text \<open>
  \<open>df.loc[:, hs]\<close> for a list of labels \<open>hs\<close>: a label that is not a column of \<open>df\<close> raises
  \<open>KeyError\<close>; otherwise the columns are selected in the order of \<open>hs\<close>.
\<close>

definition loc_columns :: "dataframe \<Rightarrow> label list \<Rightarrow> error + dataframe" where
  "loc_columns df hs =
     (if \<exists>h \<in> set hs. h \<notin> set (columns df) then Inl KeyError
      else Inr \<lparr>columns = concat (map (pick (columns df) (columns df)) hs),
                rows = map (\<lambda>(i, xs). (i, concat (map (pick (columns df) xs) hs))) (rows df)\<rparr>)"

text \<open>
  What a splitter receives as the strata: the values of one column (a pandas \<open>Series\<close>), or
  a sub-table when the label names several columns.
\<close>

datatype strata_values = Column "cell list" | Frame dataframe

text \<open>\<open>df.loc[:, h]\<close> for a single label \<open>h\<close>.\<close>

definition loc_label :: "dataframe \<Rightarrow> label \<Rightarrow> error + strata_values" where
  "loc_label df h =
     (if h \<notin> set (columns df) then Inl KeyError
      else if count_list (columns df) h = 1
        then Inr (Column (concat (map (\<lambda>(i, xs). pick (columns df) xs h) (rows df))))
      else (case loc_columns df [h] of Inl e \<Rightarrow> Inl e | Inr d \<Rightarrow> Inr (Frame d)))"

text \<open>
  \<open>df.iloc[idx]\<close> for an array of row positions: a position past the last row raises
  \<open>IndexError\<close>; otherwise the rows at these positions, in the order of \<open>idx\<close>, keeping
  their index labels.
\<close>

definition iloc :: "dataframe \<Rightarrow> nat list \<Rightarrow> error + dataframe" where
  "iloc df idx =
     (if \<exists>i \<in> set idx. length (rows df) \<le> i then Inl IndexError
      else Inr \<lparr>columns = columns df, rows = map (\<lambda>i. rows df ! i) idx\<rparr>)"

text \<open>
  \<open>pd.DataFrame(array, columns=hs)\<close>: the rows of a two-dimensional array under the
  labels \<open>hs\<close>, indexed \<open>0, 1, ...\<close>. A row whose width is not the number of labels is
  refused by pandas. Without labels (\<open>columns=None\<close>) pandas numbers the columns.
\<close>

definition DataFrame :: "cell list list \<Rightarrow> label list option \<Rightarrow> error + dataframe" where
  "DataFrame array hs =
     (case hs of
        None \<Rightarrow>
          Inr \<lparr>columns = map (\<lambda>i. PyInt (int i)) [0 ..< (case array of [] \<Rightarrow> 0 | r # _ \<Rightarrow> length r)],
               rows = zip (map int [0 ..< length array]) array\<rparr>
      | Some h \<Rightarrow>
          if \<exists>r \<in> set array. length r \<noteq> length h
          then Inl (LibraryError ''Shape of passed values'')
          else Inr \<lparr>columns = h, rows = zip (map int [0 ..< length array]) array\<rparr>)"

section \<open>The external libraries\<close>

text \<open>
  The state of NumPy's global random generator. What a draw returns, and the state it
  leaves, is the library's business.
\<close>

type_synonym rng = nat

text \<open>
  The objects of scikit-learn that the surrogate constructs, each with the arguments the
  source passes to its constructor (all other arguments keep the library's defaults).
\<close>

datatype cv_generator =
    KFold int bool
  | GroupKFold int

datatype test_splitter =
    StratifiedShuffleSplit int real "rng option"
  | ShuffleSplit int real "rng option"
  | StratifiedGroupKFold int bool "rng option"
  | GroupShuffleSplit int "rng option"

record xgb_regressor =
  n_estimators :: int
  tree_method :: string
  n_jobs :: int
  xgb_params :: hyperparam_dict

text \<open>
  A pipeline of two steps: the one-hot encoder over the categorical columns (every other
  column passed through), then the regressor, wrapped into one regressor per output
  column when \<open>multiout\<close> holds.
\<close>

record pipeline =
  onehot_columns :: "string list"
  multiout :: bool
  estimator :: xgb_regressor

datatype distribution =
    Choices "pyval list"
  | Uniform real real
  | LogUniform real real

record randomized_search =
  search_estimator :: pipeline
  param_distributions :: "(string \<times> distribution) list"
  n_iter :: int
  search_cv :: cv_generator
  search_random_state :: "rng option"
  refit :: bool

text \<open>
  The operations of the external libraries, taken as parameters: NumPy's draws from the
  global generator; scikit-learn's validation of a cross-validation generator's arguments,
  the first train/test split of a splitter (row positions), the folds of a
  cross-validation generator, fitting a pipeline or a randomized search (to a fitted model
  \<open>'m\<close>), predicting with a fitted model, and the two scores. A library operation that raises
  returns its message on the left.
\<close>

record 'm library =
  random_choice :: "rng \<Rightarrow> int list \<Rightarrow> int \<times> rng"
  random_uniform :: "rng \<Rightarrow> real \<Rightarrow> real \<Rightarrow> real \<times> rng"
  cv_init :: "cv_generator \<Rightarrow> string option"
  first_split :: "test_splitter \<Rightarrow> dataframe \<Rightarrow> strata_values \<Rightarrow> dataframe option \<Rightarrow> rng
                  \<Rightarrow> (string + nat list \<times> nat list) \<times> rng"
  cv_split :: "cv_generator \<Rightarrow> dataframe \<Rightarrow> dataframe \<Rightarrow> dataframe option
               \<Rightarrow> (nat list \<times> nat list) list"
  pipeline_fit :: "pipeline \<Rightarrow> dataframe \<Rightarrow> dataframe \<Rightarrow> rng \<Rightarrow> (string + 'm) \<times> rng"
  search_fit :: "randomized_search \<Rightarrow> dataframe \<Rightarrow> dataframe \<Rightarrow> dataframe option \<Rightarrow> rng
                 \<Rightarrow> (string + 'm) \<times> rng"
  model_predict :: "'m \<Rightarrow> dataframe \<Rightarrow> string + cell list list"
  r2_score :: "dataframe \<Rightarrow> dataframe \<Rightarrow> string + real"
  mean_squared_error :: "dataframe \<Rightarrow> dataframe \<Rightarrow> string + real"

section \<open>The surrogate\<close>

text \<open>
  A configuration space, as far as the surrogate reads it: the hyperparameters' names in
  order, each with whether it is categorical.
\<close>

type_synonym config_space = "(string \<times> bool) list"

text \<open>
  The attributes of an \<open>XGBSurrogate\<close> instance; \<open>trained\<close> is the attribute
  \<open>trained_\<close> (a name cannot end in an underscore here).
\<close>

record 'm surrogate =
  config_space :: "config_space option"
  estimators_per_output :: int
  hyperparams :: "hyperparam_dict option"
  use_gpu :: "bool option"
  model :: "'m option"
  feature_headers :: "label list option"
  label_headers :: "label list option"
  trained :: bool

definition default_hyperparams :: hyperparam_dict where
  "default_hyperparams =
     [(''objective'', PyStr ''reg:squarederror''),
      (''booster'', PyStr ''gbtree''),
      (''max_depth'', PyInt 6),
      (''min_child_weight'', PyInt 1),
      (''colsample_bytree'', PyInt 1),
      (''learning_rate'', PyFloat (3 / 10)),
      (''colsample_bylevel'', PyInt 1)]"

text \<open>
  \<open>set_random_hyperparams\<close>. With no hyperparameters yet, the defaults are stored and
  returned. Otherwise the dictionary display is evaluated entry by entry: the two
  \<open>np.random.choice\<close> draws and the first \<open>np.random.uniform\<close> draw are made, and then
  the name \<open>loguniform\<close> is looked up, which the module neither defines nor imports
  (it imports \<open>scipy.stats\<close> only as a module): \<open>NameError\<close>, before the assignment to
  \<open>self.hyperparams\<close>.
\<close>

definition set_random_hyperparams ::
  "'m library \<Rightarrow> 'm surrogate \<Rightarrow> rng \<Rightarrow> (error + hyperparam_dict) \<times> 'm surrogate \<times> rng" where
  "set_random_hyperparams L self g =
     (case hyperparams self of
        None \<Rightarrow>
          (let params = default_hyperparams
           in (Inr params, self\<lparr>hyperparams := Some params\<rparr>, g))
      | Some _ \<Rightarrow>
          (let (max_depth, g1) = random_choice L g [1 ..  14];
               (min_child_weight, g2) = random_choice L g1 [1 .. 9];
               (colsample_bytree, g3) = random_uniform L g2 0 1
           in (Inl (NameError ''loguniform''), self, g3)))"

text \<open>
  \<open>__init__\<close>: the attributes are set, and \<open>set_random_hyperparams\<close> stores the default
  hyperparameters.
\<close>

definition init ::
  "'m library \<Rightarrow> config_space option \<Rightarrow> int \<Rightarrow> bool option \<Rightarrow> rng \<Rightarrow> 'm surrogate \<times> rng" where
  "init L cs epo gpu g =
     (let self = \<lparr>config_space = cs, estimators_per_output = epo, hyperparams = None,
                   use_gpu = gpu, model = None, feature_headers = None, label_headers = None,
                   trained = False\<rparr>
      in snd (set_random_hyperparams L self g))"

section \<open>Splitting the dataset\<close>

text \<open>
  The argument \<open>strata\<close> of \<open>prepare_dataset_for_training\<close>: \<open>None\<close>, the label of a
  column of the labels, or the strata themselves.
\<close>

datatype strata_arg = StrataNone | StrataLabel string | StrataSeries "cell list"

text \<open>
  Lines 251-252: the strata default to the first column of the labels
  (\<open>labels.columns[0]\<close> raises \<open>IndexError\<close> when there is no column).
\<close>

definition resolve_strata :: "dataframe \<Rightarrow> strata_arg \<Rightarrow> error + strata_values" where
  "resolve_strata labels strata =
     (case strata of
        StrataNone \<Rightarrow> (case columns labels of [] \<Rightarrow> Inl IndexError | c # _ \<Rightarrow> loc_label labels c)
      | StrataLabel name \<Rightarrow> loc_label labels (PyStr name)
      | StrataSeries v \<Rightarrow> Inr (Column v))"

text \<open>Constructing a cross-validation generator; the library validates the arguments.\<close>

definition construct_cv :: "'m library \<Rightarrow> cv_generator \<Rightarrow> error + cv_generator" where
  "construct_cv L cv = (case cv_init L cv of Some msg \<Rightarrow> Inl (LibraryError msg) | None \<Rightarrow> Inr cv)"

text \<open>
  A local variable of a Python function is unbound until a statement assigns it; reading
  it unbound raises \<open>UnboundLocalError\<close>.
\<close>

datatype 'a local_variable = Unbound | Bound 'a

text \<open>
  What \<open>prepare_dataset_for_training\<close> returns: the training features, the test features,
  the training labels, the test labels, the groups of the training rows, and the
  cross-validation generator.
\<close>

type_synonym splits =
  "dataframe \<times> dataframe option \<times> dataframe \<times> dataframe option \<times> dataframe option \<times> cv_generator"

text \<open>
  Line 284, the only \<open>return\<close> of the function: it reads the local \<open>groups_train\<close>.
\<close>

definition return_splits ::
  "dataframe \<Rightarrow> dataframe option \<Rightarrow> dataframe \<Rightarrow> dataframe option
   \<Rightarrow> dataframe option local_variable \<Rightarrow> cv_generator \<Rightarrow> error + splits" where
  "return_splits xtrain xtest ytrain ytest groups_train cv =
     (case groups_train of
        Unbound \<Rightarrow> Inl (UnboundLocalError ''groups_train'')
      | Bound gt \<Rightarrow> Inr (xtrain, xtest, ytrain, ytest, gt, cv))"

text \<open>Lines 261-264 and 275-278: the four positional selections.\<close>

definition select_rows ::
  "dataframe \<Rightarrow> dataframe \<Rightarrow> nat list \<Rightarrow> nat list
   \<Rightarrow> error + dataframe \<times> dataframe \<times> dataframe \<times> dataframe" where
  "select_rows features labels idx_train idx_test =
     (case iloc features idx_train of Inl e \<Rightarrow> Inl e | Inr xtrain \<Rightarrow>
      case iloc features idx_test of Inl e \<Rightarrow> Inl e | Inr xtest \<Rightarrow>
      case iloc labels idx_train of Inl e \<Rightarrow> Inl e | Inr ytrain \<Rightarrow>
      case iloc labels idx_test of Inl e \<Rightarrow> Inl e | Inr ytest \<Rightarrow>
        Inr (xtrain, xtest, ytrain, ytest))"

text \<open>
  Lines 254-267: a test split is drawn and no groups are given. The local
  \<open>groups_train\<close> is not assigned on this path.
\<close>

definition split_without_groups ::
  "'m library \<Rightarrow> dataframe \<Rightarrow> dataframe \<Rightarrow> strata_values \<Rightarrow> real \<Rightarrow> rng option \<Rightarrow> int
   \<Rightarrow> bool \<Rightarrow> rng \<Rightarrow> (error + splits) \<times> rng" where
  "split_without_groups L features labels strata test_size random_state num_cv_splits stratify g =
     (let test_splitter =
            (if stratify then StratifiedShuffleSplit 1 test_size random_state
             else ShuffleSplit 1 test_size random_state)
      in case first_split L test_splitter features strata None g of
           (Inl msg, g') \<Rightarrow> (Inl (LibraryError msg), g')
         | (Inr (idx_train, idx_test), g') \<Rightarrow>
            (case select_rows features labels idx_train idx_test of
               Inl e \<Rightarrow> (Inl e, g')
             | Inr (xtrain, xtest, ytrain, ytest) \<Rightarrow>
                (case construct_cv L (KFold num_cv_splits False) of
                   Inl e \<Rightarrow> (Inl e, g')
                 | Inr cv \<Rightarrow>
                    (return_splits xtrain (Some xtest) ytrain (Some ytest) Unbound cv, g'))))"

text \<open>
  Lines 268-281: a test split is drawn and groups are given. \<open>int(1 / test_size)\<close>
  truncates a quotient that is at least 1 on this path. Line 279 is the only
  assignment to \<open>groups_train\<close>.
\<close>

definition split_with_groups ::
  "'m library \<Rightarrow> dataframe \<Rightarrow> dataframe \<Rightarrow> dataframe \<Rightarrow> strata_values \<Rightarrow> real \<Rightarrow> rng option
   \<Rightarrow> int \<Rightarrow> bool \<Rightarrow> rng \<Rightarrow> (error + splits) \<times> rng" where
  "split_with_groups L features labels groups strata test_size random_state num_cv_splits
       stratify g =
     (let test_splitter =
            (if stratify then StratifiedGroupKFold \<lfloor>1 / test_size\<rfloor> True random_state
             else GroupShuffleSplit \<lfloor>1 / test_size\<rfloor> random_state)
      in case first_split L test_splitter features strata (Some groups) g of
           (Inl msg, g') \<Rightarrow> (Inl (LibraryError msg), g')
         | (Inr (idx_train, idx_test), g') \<Rightarrow>
            (case select_rows features labels idx_train idx_test of
               Inl e \<Rightarrow> (Inl e, g')
             | Inr (xtrain, xtest, ytrain, ytest) \<Rightarrow>
                (case iloc groups idx_train of
                   Inl e \<Rightarrow> (Inl e, g')
                 | Inr groups_train \<Rightarrow>
                    (case construct_cv L (GroupKFold num_cv_splits) of
                       Inl e \<Rightarrow> (Inl e, g')
                     | Inr cv \<Rightarrow>
                        (return_splits xtrain (Some xtest) ytrain (Some ytest)
                           (Bound (Some groups_train)) cv,
                         g')))))"

text \<open>
  \<open>prepare_dataset_for_training\<close> (a static method). The test fraction is a float,
  modelled by the real number it denotes. With no test split (lines 240-249) the local
  \<open>groups_train\<close> is not assigned either.
\<close>

definition prepare_dataset_for_training ::
  "'m library \<Rightarrow> dataframe \<Rightarrow> dataframe \<Rightarrow> dataframe option \<Rightarrow> real \<Rightarrow> rng option \<Rightarrow> int
   \<Rightarrow> bool \<Rightarrow> strata_arg \<Rightarrow> rng \<Rightarrow> (error + splits) \<times> rng" where
  "prepare_dataset_for_training L features labels groups test_size random_state num_cv_splits
       stratify strata g =
     (if test_size > 1 \<or> test_size < 0 then (Inl (ValueError test_size), g)
      else if test_size = 0 then
        (case construct_cv L (case groups of None \<Rightarrow> KFold num_cv_splits False
                                            | Some _ \<Rightarrow> GroupKFold num_cv_splits) of
           Inl e \<Rightarrow> (Inl e, g)
         | Inr cv \<Rightarrow> (return_splits features None labels None Unbound cv, g))
      else
        (case resolve_strata labels strata of
           Inl e \<Rightarrow> (Inl e, g)
         | Inr strata' \<Rightarrow>
            (case groups of
               None \<Rightarrow>
                 split_without_groups L features labels strata' test_size random_state
                   num_cv_splits stratify g
             | Some grp \<Rightarrow>
                 split_with_groups L features labels grp strata' test_size random_state
                   num_cv_splits stratify g)))"

section \<open>Fitting and predicting\<close>

text \<open>The class attribute \<open>_hpo_search_space\<close>.\<close>

definition hpo_search_space :: "(string \<times> distribution) list" where
  "hpo_search_space =
     [(''objective'', Choices [PyStr ''reg:squarederror'']),
      (''booster'', Choices [PyStr ''gbtree'']),
      (''max_depth'', Choices (map PyInt [1 .. 14])),
      (''min_child_weight'', Choices (map PyInt [1 .. 9])),
      (''colsample_bytree'', Uniform 0 1),
      (''learning_rate'', LogUniform (1 / 1000) (1 / 2)),
      (''colsample_bylevel'', Uniform 0 1)]"

text \<open>
  \<open>_get_simple_pipeline\<close>, with the property \<open>preprocessing_pipeline\<close> it reads first.
  Without a configuration space the property fails on \<open>None\<close>; the hyperparameters are
  passed to the regressor as keyword arguments, which Python refuses when they are
  \<open>None\<close> or repeat a keyword given explicitly.
\<close>

definition get_simple_pipeline :: "'m surrogate \<Rightarrow> bool \<Rightarrow> error + pipeline" where
  "get_simple_pipeline self mo =
     (case config_space self of
        None \<Rightarrow> Inl AttributeError
      | Some cs \<Rightarrow>
         (case hyperparams self of
            None \<Rightarrow> Inl TypeError
          | Some hp \<Rightarrow>
              if \<exists>k \<in> set (map fst hp). k \<in> {''n_estimators'', ''tree_method'', ''n_jobs''}
              then Inl TypeError
              else Inr \<lparr>onehot_columns = map fst (filter snd cs),
                        multiout = mo,
                        estimator = \<lparr>n_estimators = 500,
                                      tree_method = (if use_gpu self = Some True then ''gpu_hist'' else ''auto''),
                                      n_jobs = 1,
                                      xgb_params = hp\<rparr>\<rparr>))"

text \<open>
  \<open>predict\<close>. It assigns no attribute. Selecting columns by \<open>None\<close> (no feature headers
  stored) is a \<open>KeyError\<close>, and calling \<open>predict\<close> on \<open>None\<close> (no model stored) an
  \<open>AttributeError\<close>.
\<close>

definition predict :: "'m library \<Rightarrow> 'm surrogate \<Rightarrow> dataframe \<Rightarrow> error + dataframe" where
  "predict L self features =
     (case feature_headers self of
        None \<Rightarrow> Inl KeyError
      | Some fh \<Rightarrow>
         (case loc_columns features fh of
            Inl e \<Rightarrow> Inl e
          | Inr features' \<Rightarrow>
             (case model self of
                None \<Rightarrow> Inl AttributeError
              | Some m \<Rightarrow>
                 (case model_predict L m features' of
                    Inl msg \<Rightarrow> Inl (LibraryError msg)
                  | Inr ypredict \<Rightarrow> DataFrame ypredict (label_headers self)))))"

text \<open>
  Lines 294-304 of \<open>fit\<close>: the column orders are stored when none is stored yet, and
  enforced on the input otherwise. The instance is returned as the statements leave it,
  also when the second selection raises.
\<close>

definition enforce_headers ::
  "'m surrogate \<Rightarrow> dataframe \<Rightarrow> dataframe \<Rightarrow> (error + dataframe \<times> dataframe) \<times> 'm surrogate" where
  "enforce_headers self features labels =
     (case (case feature_headers self of
              None \<Rightarrow> Inr (features, self\<lparr>feature_headers := Some (columns features)\<rparr>)
            | Some fh \<Rightarrow> (case loc_columns features fh of
                            Inl e \<Rightarrow> Inl e | Inr features' \<Rightarrow> Inr (features', self))) of
        Inl e \<Rightarrow> (Inl e, self)
      | Inr (features', self') \<Rightarrow>
         (case label_headers self' of
            None \<Rightarrow> (Inr (features', labels), self'\<lparr>label_headers := Some (columns labels)\<rparr>)
          | Some lh \<Rightarrow> (case loc_columns labels lh of
                          Inl e \<Rightarrow> (Inl e, self')
                        | Inr labels' \<Rightarrow> (Inr (features', labels'), self'))))"

text \<open>
  Lines 325-342: the randomized search over the fixed search space, or the plain
  pipeline; then the model and the trained flag are stored.
\<close>

definition train ::
  "'m library \<Rightarrow> 'm surrogate \<Rightarrow> pipeline \<Rightarrow> bool \<Rightarrow> nat \<Rightarrow> int \<Rightarrow> cv_generator
   \<Rightarrow> rng option \<Rightarrow> dataframe \<Rightarrow> dataframe \<Rightarrow> dataframe option \<Rightarrow> rng
   \<Rightarrow> (error + unit) \<times> 'm surrogate \<times> rng" where
  "train L self pipe perform_hpo num_regressands hpo_iters cv random_state xtrain ytrain groups g =
     (case (if perform_hpo then
              (let estimator_prefix =
                     (if num_regressands > 1 then ''multiout__'' else []) @ ''estimator'';
                   search_space = map (\<lambda>(k, v). (estimator_prefix @ ''__'' @ k, v)) hpo_search_space;
                   trainer = \<lparr>search_estimator = pipe, param_distributions = search_space,
                              n_iter = hpo_iters, search_cv = cv,
                              search_random_state = random_state, refit = True\<rparr>
               in search_fit L trainer xtrain ytrain groups g)
            else pipeline_fit L pipe xtrain ytrain g) of
        (Inl msg, g') \<Rightarrow> (Inl (LibraryError msg), self, g')
      | (Inr m, g') \<Rightarrow> (Inr (), self\<lparr>model := Some m, trained := True\<rparr>, g'))"

text \<open>Lines 344-346 and 354-356: predictions on a split, and the two scores.\<close>

definition score_split ::
  "'m library \<Rightarrow> 'm surrogate \<Rightarrow> dataframe \<Rightarrow> dataframe \<Rightarrow> error + real \<times> real" where
  "score_split L self x y =
     (case predict L self x of
        Inl e \<Rightarrow> Inl e
      | Inr ypred \<Rightarrow>
         (case r2_score L y ypred of
            Inl msg \<Rightarrow> Inl (LibraryError msg)
          | Inr r2 \<Rightarrow>
             (case mean_squared_error L y ypred of
                Inl msg \<Rightarrow> Inl (LibraryError msg)
              | Inr mse \<Rightarrow> Inr (r2, mse))))"

text \<open>Lines 344-360: the scores dictionary.\<close>

definition scores_of ::
  "'m library \<Rightarrow> 'm surrogate \<Rightarrow> real \<Rightarrow> dataframe \<Rightarrow> dataframe option \<Rightarrow> dataframe
   \<Rightarrow> dataframe option \<Rightarrow> error + (string \<times> real) list" where
  "scores_of L self test_size xtrain xtest ytrain ytest =
     (case score_split L self xtrain ytrain of
        Inl e \<Rightarrow> Inl e
      | Inr (train_r2, train_mse) \<Rightarrow>
         (let scores = [(''train_r2'', train_r2), (''train_mse'', train_mse)]
          in if test_size > 0 then
               (case (xtest, ytest) of
                  (Some xt, Some yt) \<Rightarrow>
                    (case score_split L self xt yt of
                       Inl e \<Rightarrow> Inl e
                     | Inr (test_r2, test_mse) \<Rightarrow>
                         Inr (scores @ [(''test_r2'', test_r2), (''test_mse'', test_mse)]))
                | _ \<Rightarrow> Inl AttributeError)
             else Inr scores))"

text \<open>
  \<open>fit\<close>. An exception leaves the instance as the statements before it left it; the
  result is the exception or the scores, the instance, and the generator state.
\<close>

definition fit ::
  "'m library \<Rightarrow> 'm surrogate \<Rightarrow> dataframe \<Rightarrow> dataframe \<Rightarrow> dataframe option \<Rightarrow> bool \<Rightarrow> real
   \<Rightarrow> rng option \<Rightarrow> int \<Rightarrow> int \<Rightarrow> bool \<Rightarrow> strata_arg \<Rightarrow> rng
   \<Rightarrow> (error + (string \<times> real) list) \<times> 'm surrogate \<times> rng" where
  "fit L self features labels groups perform_hpo test_size random_state hpo_iters num_cv_splits
       stratify strata g =
     (case enforce_headers self features labels of
        (Inl e, self1) \<Rightarrow> (Inl e, self1, g)
      | (Inr (features', labels'), self1) \<Rightarrow>
         (case prepare_dataset_for_training L features' labels' groups test_size random_state
                 num_cv_splits stratify strata g of
            (Inl e, g1) \<Rightarrow> (Inl e, self1, g1)
          | (Inr (xtrain, xtest, ytrain, ytest, groups', cv), g1) \<Rightarrow>
             (let num_regressands = length (columns labels')
              in case get_simple_pipeline self1 (num_regressands > 1) of
                   Inl e \<Rightarrow> (Inl e, self1, g1)
                 | Inr pipe \<Rightarrow>
                    (case train L self1 pipe perform_hpo num_regressands hpo_iters cv random_state
                            xtrain ytrain groups' g1 of
                       (Inl e, self2, g2) \<Rightarrow> (Inl e, self2, g2)
                     | (Inr _, self2, g2) \<Rightarrow>
                         (scores_of L self2 test_size xtrain xtest ytrain ytest, self2, g2)))))"

section \<open>Persistence\<close>

text \<open>
  A path is the list of its parts; \<open>outdir / name\<close> appends one part. The three file names
  are class attributes.
\<close>

type_synonym path = "string list"

definition params_filename :: string where
  "params_filename = ''params.pkl.gz''"

definition headers_filename :: string where
  "headers_filename = ''label_headers.pkl.gz''"

definition model_filename :: string where
  "model_filename = ''model.pkl.gz''"

text \<open>
  The dictionary that \<open>dump\<close> builds from \<open>__param_keys\<close>, in the order of the keys:
  \<open>estimators_per_output\<close>, \<open>hyperparams\<close>, \<open>config_space\<close>, \<open>label_headers\<close>,
  \<open>feature_headers\<close>, \<open>trained_\<close>.
\<close>

datatype params =
  Params int "hyperparam_dict option" "config_space option" "label list option"
    "label list option" bool

text \<open>
  What a file holds: a pickled object is modelled by the object itself (unpickling
  returns what was pickled). Writing is taken to succeed.
\<close>

datatype 'm payload =
    ParamsPayload params
  | HeadersPayload "label list"
  | ModelPayload "'m option"

type_synonym 'm filesystem = "path \<Rightarrow> 'm payload option"

text \<open>
  \<open>dump\<close>. The parameters are written first. For a trained instance
  \<open>self.label_headers.to_series()\<close> is evaluated next, an \<open>AttributeError\<close> when no label
  headers are stored. The pickle protocol does not change what is read back.
\<close>

definition dump ::
  "'m surrogate \<Rightarrow> path \<Rightarrow> int \<Rightarrow> 'm filesystem \<Rightarrow> (error + unit) \<times> 'm filesystem" where
  "dump self outdir protocol fs =
     (let params = Params (estimators_per_output self) (hyperparams self) (config_space self)
                     (label_headers self) (feature_headers self) (trained self);
          fs1 = fs(outdir @ [params_filename] \<mapsto> ParamsPayload params)
      in if trained self then
           (case label_headers self of
              None \<Rightarrow> (Inl AttributeError, fs1)
            | Some lh \<Rightarrow>
                (Inr (), fs1(outdir @ [headers_filename] \<mapsto> HeadersPayload lh,
                             outdir @ [model_filename] \<mapsto> ModelPayload (model self))))
         else (Inr (), fs1))"

text \<open>
  \<open>load\<close> (a class method). \<open>cls()\<close> constructs an instance with the defaults of
  \<open>__init__\<close>; the default configuration space \<open>joint_config_space\<close> is imported from a
  module that is not part of the sources and is a parameter here. A missing file raises
  \<open>FileNotFoundError\<close>; a file that holds an object of another kind is reported as a
  library error.
\<close>

definition load ::
  "'m library \<Rightarrow> config_space option \<Rightarrow> path \<Rightarrow> 'm filesystem \<Rightarrow> rng
   \<Rightarrow> (error + 'm surrogate) \<times> rng" where
  "load L joint_config_space outdir fs g =
     (case fs (outdir @ [params_filename]) of
        None \<Rightarrow> (Inl (FileNotFoundError (outdir @ [params_filename])), g)
      | Some (ParamsPayload (Params epo hp cs lh fh tr)) \<Rightarrow>
         (let (fresh, g') = init L joint_config_space 500 None g;
              surrogate = fresh\<lparr>estimators_per_output := epo, hyperparams := hp,
                                config_space := cs, label_headers := lh,
                                feature_headers := fh, trained := tr\<rparr>
          in if trained surrogate then
               (case fs (outdir @ [headers_filename]) of
                  None \<Rightarrow> (Inl (FileNotFoundError (outdir @ [headers_filename])), g')
                | Some (HeadersPayload h) \<Rightarrow>
                   (case fs (outdir @ [model_filename]) of
                      None \<Rightarrow> (Inl (FileNotFoundError (outdir @ [model_filename])), g')
                    | Some (ModelPayload m) \<Rightarrow>
                        (Inr (surrogate\<lparr>label_headers := Some h, model := m\<rparr>), g')
                    | Some _ \<Rightarrow> (Inl (LibraryError ''not a model''), g'))
                | Some _ \<Rightarrow> (Inl (LibraryError ''not a label index''), g'))
             else (Inr surrogate, g'))
      | Some _ \<Rightarrow> (Inl (LibraryError ''not a parameter dictionary''), g))"

section \<open>Sequences of calls\<close>

text \<open>
  The calls a client makes on one instance, and the instance and generator state each
  leaves, whether it returns or raises (the client catches the exception and goes on).
  \<open>predict\<close> assigns no attribute and draws nothing.
\<close>

datatype call =
    Fit dataframe dataframe "dataframe option" bool real "rng option" int int bool strata_arg
  | Predict dataframe
  | SetRandomHyperparams

fun run_call :: "'m library \<Rightarrow> 'm surrogate \<times> rng \<Rightarrow> call \<Rightarrow> 'm surrogate \<times> rng" where
  "run_call L (self, g) (Fit features labels groups perform_hpo test_size random_state hpo_iters
       num_cv_splits stratify strata) =
     snd (fit L self features labels groups perform_hpo test_size random_state hpo_iters
            num_cv_splits stratify strata g)"
| "run_call L (self, g) (Predict features) = (self, g)"
| "run_call L (self, g) SetRandomHyperparams = snd (set_random_hyperparams L self g)"

definition run_calls :: "'m library \<Rightarrow> 'm surrogate \<times> rng \<Rightarrow> call list \<Rightarrow> 'm surrogate \<times> rng" where
  "run_calls L st calls = foldl (run_call L) st calls"

section \<open>Groups and the library's contract\<close>

text \<open>
  The group ids (the cells of the groups table) of the rows at the positions \<open>idx\<close>.
\<close>

definition group_ids :: "dataframe \<Rightarrow> nat list \<Rightarrow> cell list set" where
  "group_ids groups idx =
     set (map (\<lambda>i. snd (rows groups ! i)) (filter (\<lambda>i. i < length (rows groups)) idx))"

text \<open>The splitters of scikit-learn that split by groups.\<close>

fun group_aware :: "test_splitter \<Rightarrow> bool" where
  "group_aware (StratifiedGroupKFold n s r) = True"
| "group_aware (GroupShuffleSplit n r) = True"
| "group_aware (StratifiedShuffleSplit n t r) = False"
| "group_aware (ShuffleSplit n t r) = False"

text \<open>
  What scikit-learn documents for its group-aware splitters and for \<open>GroupKFold\<close>: the
  two sides of a split share no group.
\<close>

definition keeps_groups_apart :: "'m library \<Rightarrow> bool" where
  "keeps_groups_apart L \<longleftrightarrow>
     (\<forall>sp X st grp g idx_train idx_test g'.
        group_aware sp \<longrightarrow>
        first_split L sp X st (Some grp) g = (Inr (idx_train, idx_test), g') \<longrightarrow>
        group_ids grp idx_train \<inter> group_ids grp idx_test = {}) \<and>
     (\<forall>k X y grp idx_train idx_valid.
        (idx_train, idx_valid) \<in> set (cv_split L (GroupKFold k) X y (Some grp)) \<longrightarrow>
        group_ids grp idx_train \<inter> group_ids grp idx_valid = {})"

section \<open>A small library and dataset\<close>

text \<open>
  A stand-in for the external libraries, to run the surrogate on concrete inputs: a split
  holds out the rows of the first row's group (the first row alone without groups), a
  fitted model remembers the number of label columns and predicts zeros, and the
  generators of fewer than two folds are refused.
\<close>

definition first_group_split :: "dataframe option \<Rightarrow> nat \<Rightarrow> nat list \<times> nat list" where
  "first_group_split groups n =
     (case groups of
        None \<Rightarrow> ([1 ..< n], [0])
      | Some grp \<Rightarrow>
         (filter (\<lambda>i. i < length (rows grp) \<and> snd (rows grp ! i) \<noteq> snd (rows grp ! 0)) [0 ..< n],
          filter (\<lambda>i. i < length (rows grp) \<and> snd (rows grp ! i) = snd (rows grp ! 0)) [0 ..< n]))"

definition example_library :: "nat library" where
  "example_library =
     \<lparr>random_choice = (\<lambda>g xs. (case xs of [] \<Rightarrow> 0 | x # _ \<Rightarrow> x, Suc g)),
      random_uniform = (\<lambda>g lo hi. (lo, Suc g)),
      cv_init = (\<lambda>cv. case cv of
                         KFold n s \<Rightarrow> if n < 2 then Some ''n_splits'' else None
                       | GroupKFold n \<Rightarrow> if n < 2 then Some ''n_splits'' else None),
      first_split = (\<lambda>sp X st grp g.
                       if rows X = [] then (Inl ''no samples'', g)
                       else (Inr (first_group_split grp (length (rows X))), Suc g)),
      cv_split = (\<lambda>cv X y grp. [first_group_split grp (length (rows X))]),
      pipeline_fit = (\<lambda>p X y g. (Inr (length (columns y)), Suc g)),
      search_fit = (\<lambda>s X y grp g. (Inr (length (columns y)), Suc g)),
      model_predict = (\<lambda>m X. Inr (map (\<lambda>r. replicate m (Num 0)) (rows X))),
      r2_score = (\<lambda>y ypred. Inr 0),
      mean_squared_error = (\<lambda>y ypred. Inr 1)\<rparr>"

definition example_config_space :: config_space where
  "example_config_space = [(''Optimizer'', True), (''LearningRate'', False)]"

definition example_features :: dataframe where
  "example_features =
     \<lparr>columns = [PyStr ''Optimizer'', PyStr ''LearningRate'', PyStr ''epoch''],
      rows = [(0, [Cat ''SGD'', Num (1 / 10), Num 1]),
              (1, [Cat ''SGD'', Num (1 / 10), Num 2]),
              (2, [Cat ''Adam'', Num (1 / 100), Num 1]),
              (3, [Cat ''Adam'', Num (1 / 100), Num 2])]\<rparr>"

definition example_labels :: dataframe where
  "example_labels =
     \<lparr>columns = [PyStr ''Label_0'', PyStr ''Label_1''],
      rows = [(0, [Num (1 / 2), Num 3]),
              (1, [Num (3 / 4), Num 2]),
              (2, [Num (1 / 4), Num 5]),
              (3, [Num (1 / 2), Num 4])]\<rparr>"

definition example_groups :: dataframe where
  "example_groups =
     \<lparr>columns = [PyStr ''ModelIndex''],
      rows = [(0, [Num 1]), (1, [Num 1]), (2, [Num 2]), (3, [Num 2])]\<rparr>"

text \<open>The same features with the columns in another order and one column more.\<close>

definition example_features_shuffled :: dataframe where
  "example_features_shuffled =
     \<lparr>columns = [PyStr ''epoch'', PyStr ''Extra'', PyStr ''Optimizer'', PyStr ''LearningRate''],
      rows = [(0, [Num 1, Num 7, Cat ''SGD'', Num (1 / 10)]),
              (1, [Num 2, Num 7, Cat ''SGD'', Num (1 / 10)]),
              (2, [Num 1, Num 7, Cat ''Adam'', Num (1 / 100)]),
              (3, [Num 2, Num 7, Cat ''Adam'', Num (1 / 100)])]\<rparr>"

text \<open>A freshly constructed instance, and the instance a first successful \<open>fit\<close> leaves.\<close>

definition example_fresh :: "nat surrogate" where
  "example_fresh = fst (init example_library (Some example_config_space) 500 None 0)"

definition example_trained :: "nat surrogate" where
  "example_trained =
     fst (snd (fit example_library example_fresh example_features example_labels
                 (Some example_groups) False (1 / 2) None 10 5 False StrataNone 0))"

section \<open>How the operations on tables and the splitter fail\<close>

lemma loc_columns_error: "loc_columns df hs = Inl e \<Longrightarrow> e = KeyError"
  by (simp add: loc_columns_def split: if_splits)

lemma iloc_error: "iloc df idx = Inl e \<Longrightarrow> e = IndexError"
  by (simp add: iloc_def split: if_splits)

lemma loc_label_error: "loc_label df h = Inl e \<Longrightarrow> e = KeyError"
  by (auto simp add: loc_label_def dest: loc_columns_error split: if_splits sum.splits)

lemma resolve_strata_error:
  "resolve_strata labels strata = Inl e \<Longrightarrow> e = KeyError \<or> e = IndexError"
  by (auto simp add: resolve_strata_def dest: loc_label_error split: strata_arg.splits list.splits)

lemma select_rows_error: "select_rows features labels itr ite = Inl e \<Longrightarrow> e = IndexError"
  by (auto simp add: select_rows_def dest: iloc_error split: sum.splits)

lemma select_rows_Inr:
  "select_rows features labels itr ite = Inr (xtrain, xtest, ytrain, ytest) \<longleftrightarrow>
     iloc features itr = Inr xtrain \<and> iloc features ite = Inr xtest \<and>
     iloc labels itr = Inr ytrain \<and> iloc labels ite = Inr ytest"
  by (auto simp add: select_rows_def split: sum.splits)

lemma construct_cv_error: "construct_cv L cv = Inl e \<Longrightarrow> \<exists>msg. e = LibraryError msg"
  by (auto simp add: construct_cv_def split: option.splits)

lemma construct_cv_result: "construct_cv L cv = Inr cv' \<Longrightarrow> cv' = cv"
  by (auto simp add: construct_cv_def split: option.splits)

lemma return_splits_error:
  "return_splits a b c d gt cv = Inl e \<Longrightarrow> e = UnboundLocalError ''groups_train''"
  by (auto simp add: return_splits_def split: local_variable.splits)

text \<open>Without groups, the path that draws a test split never reaches a normal return.\<close>

lemma split_without_groups_raises:
  "\<exists>e. fst (split_without_groups L features labels strata test_size random_state num_cv_splits
              stratify g) = Inl e \<and> (\<forall>x. e \<noteq> ValueError x)"
proof -
  define sp where "sp = (if stratify then StratifiedShuffleSplit 1 test_size random_state
             else ShuffleSplit 1 test_size random_state)"
  obtain r g' where fs: "first_split L sp features strata None g = (r, g')"
    by (cases "first_split L sp features strata None g")
  show ?thesis
  proof (cases r)
    case (Inl msg)
    then show ?thesis
      unfolding split_without_groups_def Let_def sp_def[symmetric] fs by simp
  next
    case (Inr idx)
    obtain itr ite where idx: "idx = (itr, ite)" by (cases idx)
    show ?thesis
    proof (cases "select_rows features labels itr ite")
      case (Inl e)
      then show ?thesis
        unfolding split_without_groups_def Let_def sp_def[symmetric] fs Inr idx
        using select_rows_error[OF Inl] by simp
    next
      case sel: (Inr quad)
      obtain a b c d where quad: "quad = (a, b, c, d)" by (cases quad)
      show ?thesis
      proof (cases "construct_cv L (KFold num_cv_splits False)")
        case (Inl e)
        then show ?thesis
          unfolding split_without_groups_def Let_def sp_def[symmetric] fs Inr idx
          using construct_cv_error[OF Inl] by (auto simp add: sel quad)
      next
        case cv: (Inr cv)
        show ?thesis
          unfolding split_without_groups_def Let_def sp_def[symmetric] fs Inr idx
          by (simp add: sel quad cv return_splits_def)
      qed
    qed
  qed
qed

text \<open>What a normal return of the path with groups says about its parts.\<close>

lemma split_with_groups_returns:
  assumes "split_with_groups L features labels grp strata test_size random_state num_cv_splits
             stratify g = (Inr (xtrain, xtest, ytrain, ytest, groups_train, cv), g')"
  shows "\<exists>idx_train idx_test xt yt gt.
           first_split L (if stratify then StratifiedGroupKFold \<lfloor>1 / test_size\<rfloor> True random_state
                          else GroupShuffleSplit \<lfloor>1 / test_size\<rfloor> random_state)
             features strata (Some grp) g = (Inr (idx_train, idx_test), g') \<and>
           iloc features idx_train = Inr xtrain \<and> iloc features idx_test = Inr xt \<and>
           iloc labels idx_train = Inr ytrain \<and> iloc labels idx_test = Inr yt \<and>
           iloc grp idx_train = Inr gt \<and>
           xtest = Some xt \<and> ytest = Some yt \<and> groups_train = Some gt \<and>
           cv = GroupKFold num_cv_splits"
proof -
  define sp where "sp = (if stratify then StratifiedGroupKFold \<lfloor>1 / test_size\<rfloor> True random_state
                          else GroupShuffleSplit \<lfloor>1 / test_size\<rfloor> random_state)"
  obtain r g1 where fs: "first_split L sp features strata (Some grp) g = (r, g1)"
    by (cases "first_split L sp features strata (Some grp) g")
  have unfolded: "(case r of
           Inl msg \<Rightarrow> (Inl (LibraryError msg), g1)
         | Inr (idx_train, idx_test) \<Rightarrow>
            (case select_rows features labels idx_train idx_test of
               Inl e \<Rightarrow> (Inl e, g1)
             | Inr (xtrain, xtest, ytrain, ytest) \<Rightarrow>
                (case iloc grp idx_train of
                   Inl e \<Rightarrow> (Inl e, g1)
                 | Inr groups_train \<Rightarrow>
                    (case construct_cv L (GroupKFold num_cv_splits) of
                       Inl e \<Rightarrow> (Inl e, g1)
                     | Inr cv \<Rightarrow>
                        (return_splits xtrain (Some xtest) ytrain (Some ytest)
                           (Bound (Some groups_train)) cv,
                         g1))))) = (Inr (xtrain, xtest, ytrain, ytest, groups_train, cv), g')"
    using assms unfolding split_with_groups_def Let_def sp_def[symmetric] fs by simp
  then obtain itr ite where r: "r = Inr (itr, ite)"
    by (cases r) auto
  from unfolded r obtain a b c d where sel: "select_rows features labels itr ite = Inr (a, b, c, d)"
    by (cases "select_rows features labels itr ite") auto
  from unfolded r sel obtain gt where gt: "iloc grp itr = Inr gt"
    by (cases "iloc grp itr") auto
  from unfolded r sel gt obtain cv' where cv': "construct_cv L (GroupKFold num_cv_splits) = Inr cv'"
    by (cases "construct_cv L (GroupKFold num_cv_splits)") auto
  from unfolded r sel gt cv' have
    eqs: "a = xtrain" "xtest = Some b" "c = ytrain" "ytest = Some d" "groups_train = Some gt"
         "cv' = cv" "g1 = g'"
    by (auto simp add: return_splits_def)
  from sel have "iloc features itr = Inr a" "iloc features ite = Inr b"
     "iloc labels itr = Inr c" "iloc labels ite = Inr d"
    by (simp_all add: select_rows_Inr)
  with eqs gt fs r construct_cv_result[OF cv'] show ?thesis
    unfolding sp_def by auto
qed

lemma split_with_groups_no_validation_error:
  "fst (split_with_groups L features labels grp strata test_size random_state num_cv_splits
          stratify g) \<noteq> Inl (ValueError x)"
proof -
  define sp where "sp = (if stratify then StratifiedGroupKFold \<lfloor>1 / test_size\<rfloor> True random_state
                          else GroupShuffleSplit \<lfloor>1 / test_size\<rfloor> random_state)"
  obtain r g1 where fs: "first_split L sp features strata (Some grp) g = (r, g1)"
    by (cases "first_split L sp features strata (Some grp) g")
  show ?thesis
    unfolding split_with_groups_def Let_def sp_def[symmetric] fs
    by (auto split: sum.split prod.split
        dest: select_rows_error iloc_error construct_cv_error return_splits_error)
qed

text \<open>With no test split requested, the return statement reads an unbound local.\<close>

lemma prepare_zero:
  "prepare_dataset_for_training L features labels groups 0 random_state num_cv_splits stratify
     strata g =
   (Inl (case cv_init L (case groups of None \<Rightarrow> KFold num_cv_splits False
                                       | Some _ \<Rightarrow> GroupKFold num_cv_splits) of
           None \<Rightarrow> UnboundLocalError ''groups_train''
         | Some msg \<Rightarrow> LibraryError msg), g)"
  by (simp add: prepare_dataset_for_training_def construct_cv_def return_splits_def
        split: option.split)

text \<open>The only path to a normal return: groups given, and a test fraction in \<open>(0, 1]\<close>.\<close>

lemma prepare_returns:
  assumes "prepare_dataset_for_training L features labels groups test_size random_state
             num_cv_splits stratify strata g = (Inr r, g')"
  shows "\<exists>grp strata'. groups = Some grp \<and> 0 < test_size \<and> test_size \<le> 1 \<and>
           resolve_strata labels strata = Inr strata' \<and>
           split_with_groups L features labels grp strata' test_size random_state num_cv_splits
             stratify g = (Inr r, g')"
proof -
  from assms have range: "\<not> (test_size > 1 \<or> test_size < 0)"
    by (auto simp add: prepare_dataset_for_training_def)
  from assms range have nz: "test_size \<noteq> 0"
    by (auto simp add: prepare_zero)
  from assms range nz obtain strata' where st: "resolve_strata labels strata = Inr strata'"
    by (cases "resolve_strata labels strata") (auto simp add: prepare_dataset_for_training_def)
  from assms range nz st obtain grp where grp: "groups = Some grp"
    using split_without_groups_raises[of L features labels strata' test_size random_state
        num_cv_splits stratify g]
    by (cases groups) (auto simp add: prepare_dataset_for_training_def)
  from assms range nz st grp show ?thesis
    by (auto simp add: prepare_dataset_for_training_def)
qed

lemma prepare_without_groups_raises:
  "\<exists>e. fst (prepare_dataset_for_training L features labels None test_size random_state
              num_cv_splits stratify strata g) = Inl e"
proof (cases "fst (prepare_dataset_for_training L features labels None test_size random_state
              num_cv_splits stratify strata g)")
  case (Inl e)
  then show ?thesis by simp
next
  case (Inr r)
  then have "prepare_dataset_for_training L features labels None test_size random_state
              num_cv_splits stratify strata g =
             (Inr r, snd (prepare_dataset_for_training L features labels None test_size random_state
              num_cv_splits stratify strata g))"
    by (simp add: prod_eq_iff)
  from prepare_returns[OF this] show ?thesis by simp
qed

lemma prepare_validation_error_iff:
  "fst (prepare_dataset_for_training L features labels groups test_size random_state
          num_cv_splits stratify strata g) = Inl (ValueError x)
   \<longleftrightarrow> (test_size > 1 \<or> test_size < 0) \<and> x = test_size"
proof (cases "test_size > 1 \<or> test_size < 0")
  case True
  then show ?thesis by (auto simp add: prepare_dataset_for_training_def)
next
  case False
  show ?thesis
  proof (cases "test_size = 0")
    case True
    then show ?thesis by (simp add: prepare_zero split: option.split)
  next
    case nz: False
    show ?thesis
    proof (cases "resolve_strata labels strata")
      case (Inl e)
      with False nz resolve_strata_error[OF Inl] show ?thesis
        by (auto simp add: prepare_dataset_for_training_def)
    next
      case (Inr strata')
      show ?thesis
      proof (cases groups)
        case None
        with False nz Inr
          split_without_groups_raises[of L features labels strata' test_size random_state
            num_cv_splits stratify g]
        show ?thesis
          by (auto simp add: prepare_dataset_for_training_def)
      next
        case (Some grp)
        with False nz Inr
          split_with_groups_no_validation_error[of L features labels grp strata' test_size
            random_state num_cv_splits stratify g x]
        show ?thesis
          by (auto simp add: prepare_dataset_for_training_def)
      qed
    qed
  qed
qed

section \<open>Hyperparameters and construction\<close>

lemma set_random_hyperparams_unset:
  "hyperparams self = None \<Longrightarrow>
   set_random_hyperparams L self g =
     (Inr default_hyperparams, self\<lparr>hyperparams := Some default_hyperparams\<rparr>, g)"
  by (simp add: set_random_hyperparams_def Let_def)

lemma set_random_hyperparams_set:
  "hyperparams self = Some hp \<Longrightarrow>
   set_random_hyperparams L self g =
     (Inl (NameError ''loguniform''), self,
      snd (random_uniform L (snd (random_choice L (snd (random_choice L g [1 .. 14])) [1 .. 9]))
             0 1))"
  by (simp add: set_random_hyperparams_def split: prod.split)

lemma init_eq:
  "init L cs epo gpu g =
     (\<lparr>config_space = cs, estimators_per_output = epo, hyperparams = Some default_hyperparams,
       use_gpu = gpu, model = None, feature_headers = None, label_headers = None,
       trained = False\<rparr>, g)"
  by (simp add: init_def set_random_hyperparams_def Let_def)

lemma set_random_hyperparams_headers:
  "feature_headers (fst (snd (set_random_hyperparams L self g))) = feature_headers self \<and>
   label_headers (fst (snd (set_random_hyperparams L self g))) = label_headers self"
  by (cases "hyperparams self")
     (simp_all add: set_random_hyperparams_unset set_random_hyperparams_set)

section \<open>The stored column orders\<close>

lemma enforce_headers_unset:
  "feature_headers self = None \<Longrightarrow> label_headers self = None \<Longrightarrow>
   enforce_headers self features labels =
     (Inr (features, labels),
      self\<lparr>feature_headers := Some (columns features), label_headers := Some (columns labels)\<rparr>)"
  by (simp add: enforce_headers_def)

lemma enforce_headers_set:
  "feature_headers self = Some fh \<Longrightarrow> label_headers self = Some lh \<Longrightarrow>
   enforce_headers self features labels =
     (case loc_columns features fh of
        Inl e \<Rightarrow> (Inl e, self)
      | Inr features' \<Rightarrow>
         (case loc_columns labels lh of
            Inl e \<Rightarrow> (Inl e, self)
          | Inr labels' \<Rightarrow> (Inr (features', labels'), self)))"
  by (simp add: enforce_headers_def split: sum.split)

lemma train_headers:
  "train L self pipe hpo n iters cv rs xtrain ytrain groups g = (r, self', g') \<Longrightarrow>
   feature_headers self' = feature_headers self \<and> label_headers self' = label_headers self"
  by (auto simp add: train_def Let_def split: if_splits sum.splits prod.splits)

text \<open>
  Whatever the outcome of \<open>fit\<close>, the instance it leaves holds the same column orders as
  the instance that \<open>enforce_headers\<close> left.
\<close>

lemma fit_headers_after_enforce:
  assumes "enforce_headers self features labels = (r, self1)"
  shows "feature_headers (fst (snd (fit L self features labels groups perform_hpo test_size
            random_state hpo_iters num_cv_splits stratify strata g))) = feature_headers self1 \<and>
         label_headers (fst (snd (fit L self features labels groups perform_hpo test_size
            random_state hpo_iters num_cv_splits stratify strata g))) = label_headers self1"
proof (cases r)
  case (Inl e)
  with assms show ?thesis by (simp add: fit_def)
next
  case (Inr fl)
  obtain features' labels' where fl: "fl = (features', labels')" by (cases fl)
  obtain p g1 where prep: "prepare_dataset_for_training L features' labels' groups test_size
      random_state num_cv_splits stratify strata g = (p, g1)"
    by (cases "prepare_dataset_for_training L features' labels' groups test_size
      random_state num_cv_splits stratify strata g")
  show ?thesis
  proof (cases p)
    case (Inl e)
    with assms Inr fl prep show ?thesis by (simp add: fit_def)
  next
    case pr: (Inr sp)
    obtain xtrain xtest ytrain ytest groups' cv
      where sp: "sp = (xtrain, xtest, ytrain, ytest, groups', cv)"
      by (cases sp)
    show ?thesis
    proof (cases "get_simple_pipeline self1 (length (columns labels') > 1)")
      case (Inl e)
      with assms Inr fl prep pr sp show ?thesis by (simp add: fit_def)
    next
      case pipe: (Inr pipe)
      obtain tr self2 g2 where tr: "train L self1 pipe perform_hpo (length (columns labels'))
          hpo_iters cv random_state xtrain ytrain groups' g1 = (tr, self2, g2)"
        by (cases "train L self1 pipe perform_hpo (length (columns labels'))
          hpo_iters cv random_state xtrain ytrain groups' g1")
      from train_headers[OF tr] assms Inr fl prep pr sp pipe tr show ?thesis
        by (cases tr) (simp_all add: fit_def)
    qed
  qed
qed

lemma fit_keeps_headers:
  assumes "feature_headers self = Some fh" "label_headers self = Some lh"
  shows "feature_headers (fst (snd (fit L self features labels groups perform_hpo test_size
            random_state hpo_iters num_cv_splits stratify strata g))) = Some fh \<and>
         label_headers (fst (snd (fit L self features labels groups perform_hpo test_size
            random_state hpo_iters num_cv_splits stratify strata g))) = Some lh"
proof -
  obtain r self1 where e: "enforce_headers self features labels = (r, self1)"
    by (cases "enforce_headers self features labels")
  from e assms have "self1 = self"
    by (auto simp add: enforce_headers_set split: sum.splits)
  with fit_headers_after_enforce[OF e] assms show ?thesis by simp
qed

lemma run_call_keeps_headers:
  assumes "feature_headers (fst st) = Some fh" "label_headers (fst st) = Some lh"
  shows "feature_headers (fst (run_call L st c)) = Some fh \<and>
         label_headers (fst (run_call L st c)) = Some lh"
proof -
  obtain self g where st: "st = (self, g)" by (cases st)
  show ?thesis
  proof (cases c)
    case (Fit f l grp hpo ts rs it k sf sa)
    with st assms fit_keeps_headers[of self fh lh L f l grp hpo ts rs it k sf sa g]
    show ?thesis by simp
  next
    case (Predict x)
    with st assms show ?thesis by simp
  next
    case SetRandomHyperparams
    with st assms set_random_hyperparams_headers[of L self g] show ?thesis by simp
  qed
qed

lemma run_calls_keep_headers:
  "feature_headers (fst st) = Some fh \<Longrightarrow> label_headers (fst st) = Some lh \<Longrightarrow>
   feature_headers (fst (run_calls L st calls)) = Some fh \<and>
   label_headers (fst (run_calls L st calls)) = Some lh"
  unfolding run_calls_def
proof (induction calls arbitrary: st)
  case Nil
  then show ?case by simp
next
  case (Cons c calls)
  from run_call_keeps_headers[OF Cons.prems, of L c] Cons.IH[of "run_call L st c"]
  show ?case by simp
qed

section \<open>Selecting columns\<close>

lemma pick_labels: "pick cs cs h = filter (\<lambda>c. c = h) cs"
  unfolding pick_def by (induction cs) auto

lemma filter_distinct_member:
  "distinct cs \<Longrightarrow> h \<in> set cs \<Longrightarrow> filter (\<lambda>c. c = h) cs = [h]"
proof (induction cs)
  case Nil
  then show ?case by simp
next
  case (Cons c cs)
  show ?case
  proof (cases "c = h")
    case True
    with Cons.prems have "h \<notin> set cs" by simp
    then have "filter (\<lambda>c. c = h) cs = []" by (induction cs) auto
    with True show ?thesis by simp
  next
    case False
    with Cons show ?thesis by simp
  qed
qed

lemma concat_pick_labels:
  "distinct cs \<Longrightarrow> set hs \<subseteq> set cs \<Longrightarrow> concat (map (pick cs cs) hs) = hs"
  by (induction hs) (simp_all add: pick_labels filter_distinct_member)

text \<open>
  On a table with unique column labels, selecting the labels \<open>hs\<close> gives a table whose
  columns are exactly \<open>hs\<close>, in this order.
\<close>

lemma loc_columns_order:
  assumes "distinct (columns df)" "loc_columns df hs = Inr df'"
  shows "columns df' = hs"
proof -
  from assms(2) have sub: "set hs \<subseteq> set (columns df)"
    by (auto simp add: loc_columns_def split: if_splits)
  from assms(2) have "columns df' = concat (map (pick (columns df) (columns df)) hs)"
    by (auto simp add: loc_columns_def split: if_splits)
  with concat_pick_labels[OF assms(1) sub] show ?thesis by simp
qed

lemma loc_columns_succeeds_iff:
  "(\<exists>df'. loc_columns df hs = Inr df') \<longleftrightarrow> set hs \<subseteq> set (columns df)"
  by (auto simp add: loc_columns_def)

section \<open>Predicting\<close>

lemma DataFrame_columns: "DataFrame array (Some hs) = Inr df \<Longrightarrow> columns df = hs"
  by (auto simp add: DataFrame_def split: if_splits)

lemma predict_columns:
  assumes "label_headers self = Some lh" "predict L self features = Inr y"
  shows "columns y = lh"
proof -
  from assms(2) obtain array where "DataFrame array (label_headers self) = Inr y"
    by (auto simp add: predict_def split: option.splits sum.splits)
  with assms(1) show ?thesis by (simp add: DataFrame_columns)
qed

text \<open>\<open>predict\<close> reads its input only through the selection of the stored feature columns.\<close>

lemma predict_selection:
  assumes "feature_headers self = Some fh" "loc_columns features fh = loc_columns features' fh"
  shows "predict L self features = predict L self features'"
  using assms by (simp add: predict_def)

text \<open>So does \<open>fit\<close>, for the features and for the labels.\<close>

lemma fit_selection:
  assumes "feature_headers self = Some fh" "label_headers self = Some lh"
    and "loc_columns features fh = loc_columns features' fh"
    and "loc_columns labels lh = loc_columns labels' lh"
  shows "fit L self features labels groups perform_hpo test_size random_state hpo_iters
           num_cv_splits stratify strata g =
         fit L self features' labels' groups perform_hpo test_size random_state hpo_iters
           num_cv_splits stratify strata g"
proof -
  from assms have "enforce_headers self features labels = enforce_headers self features' labels'"
    by (simp add: enforce_headers_set split: sum.split)
  then show ?thesis by (simp add: fit_def)
qed

section \<open>Dumping and loading\<close>

lemma filenames_distinct:
  "params_filename \<noteq> headers_filename"
  "params_filename \<noteq> model_filename"
  "headers_filename \<noteq> model_filename"
  "headers_filename \<noteq> params_filename"
  "model_filename \<noteq> params_filename"
  "model_filename \<noteq> headers_filename"
  by (simp_all add: params_filename_def headers_filename_def model_filename_def)

lemma dump_untrained:
  "\<not> trained self \<Longrightarrow>
   dump self outdir protocol fs =
     (Inr (), fs(outdir @ [params_filename] \<mapsto>
        ParamsPayload (Params (estimators_per_output self) (hyperparams self) (config_space self)
                         (label_headers self) (feature_headers self) (trained self))))"
  by (simp add: dump_def Let_def)

lemma dump_trained:
  "trained self \<Longrightarrow> label_headers self = Some lh \<Longrightarrow>
   dump self outdir protocol fs =
     (Inr (), fs(outdir @ [params_filename] \<mapsto>
                   ParamsPayload (Params (estimators_per_output self) (hyperparams self)
                     (config_space self) (label_headers self) (feature_headers self)
                     (trained self)),
                 outdir @ [headers_filename] \<mapsto> HeadersPayload lh,
                 outdir @ [model_filename] \<mapsto> ModelPayload (model self)))"
  by (simp add: dump_def Let_def)

lemma dump_writes_params:
  "snd (dump self outdir protocol fs) (outdir @ [params_filename]) =
     Some (ParamsPayload (Params (estimators_per_output self) (hyperparams self)
             (config_space self) (label_headers self) (feature_headers self) (trained self)))"
  by (simp add: dump_def Let_def filenames_distinct split: option.split)

lemma dump_returns:
  "dump self outdir protocol fs = (Inr u, fs') \<Longrightarrow> trained self \<Longrightarrow>
   \<exists>lh. label_headers self = Some lh"
  by (cases "label_headers self") (simp_all add: dump_def Let_def)

lemma load_untrained:
  "fs (outdir @ [params_filename]) = Some (ParamsPayload (Params epo hp cs lh fh False)) \<Longrightarrow>
   load L joint_config_space outdir fs g =
     (Inr \<lparr>config_space = cs, estimators_per_output = epo, hyperparams = hp, use_gpu = None,
           model = None, feature_headers = fh, label_headers = lh, trained = False\<rparr>, g)"
  by (simp add: load_def init_eq)

lemma load_trained:
  "fs (outdir @ [params_filename]) = Some (ParamsPayload (Params epo hp cs lh fh True)) \<Longrightarrow>
   fs (outdir @ [headers_filename]) = Some (HeadersPayload h) \<Longrightarrow>
   fs (outdir @ [model_filename]) = Some (ModelPayload m) \<Longrightarrow>
   load L joint_config_space outdir fs g =
     (Inr \<lparr>config_space = cs, estimators_per_output = epo, hyperparams = hp, use_gpu = None,
           model = m, feature_headers = fh, label_headers = Some h, trained = True\<rparr>, g)"
  by (simp add: load_def init_eq)

lemma load_trained_missing_headers:
  "fs (outdir @ [params_filename]) = Some (ParamsPayload (Params epo hp cs lh fh True)) \<Longrightarrow>
   fs (outdir @ [headers_filename]) = None \<Longrightarrow>
   load L joint_config_space outdir fs g = (Inl (FileNotFoundError (outdir @ [headers_filename])), g)"
  by (simp add: load_def init_eq)

lemma load_trained_missing_model:
  "fs (outdir @ [params_filename]) = Some (ParamsPayload (Params epo hp cs lh fh True)) \<Longrightarrow>
   fs (outdir @ [headers_filename]) = Some (HeadersPayload h) \<Longrightarrow>
   fs (outdir @ [model_filename]) = None \<Longrightarrow>
   load L joint_config_space outdir fs g = (Inl (FileNotFoundError (outdir @ [model_filename])), g)"
  by (simp add: load_def init_eq)

text \<open>
  Loading what a trained instance dumped restores every attribute but \<open>use_gpu\<close>, which
  is not among the dumped keys.
\<close>

lemma load_after_dump:
  assumes "trained self" "label_headers self = Some lh"
  shows "load L joint_config_space outdir (snd (dump self outdir protocol fs)) g =
           (Inr (self\<lparr>use_gpu := None\<rparr>), g)"
proof -
  let ?fs' = "snd (dump self outdir protocol fs)"
  have p: "?fs' (outdir @ [params_filename]) =
      Some (ParamsPayload (Params (estimators_per_output self) (hyperparams self)
             (config_space self) (Some lh) (feature_headers self) True))"
    using assms by (simp add: dump_writes_params)
  have h: "?fs' (outdir @ [headers_filename]) = Some (HeadersPayload lh)"
    using assms by (simp add: dump_trained filenames_distinct)
  have m: "?fs' (outdir @ [model_filename]) = Some (ModelPayload (model self))"
    using assms by (simp add: dump_trained filenames_distinct)
  from load_trained[OF p h m, of L joint_config_space g] assms show ?thesis
    by simp
qed

lemma predict_ignores_use_gpu:
  "predict L (self\<lparr>use_gpu := u\<rparr>) features = predict L self features"
  by (simp add: predict_def split: option.split sum.split)

section \<open>The small library at work\<close>

lemma example_library_keeps_groups_apart: "keeps_groups_apart example_library"
  unfolding keeps_groups_apart_def
  by (auto simp add: example_library_def first_group_split_def group_ids_def split: if_splits)

lemma example_fresh_eq:
  "example_fresh =
     \<lparr>config_space = Some example_config_space, estimators_per_output = 500,
      hyperparams = Some default_hyperparams, use_gpu = None, model = None,
      feature_headers = None, label_headers = None, trained = False\<rparr>"
  by (simp add: example_fresh_def init_eq)

lemma example_iloc:
  "iloc example_features [2, 3] =
     Inr \<lparr>columns = columns example_features,
          rows = [(2, [Cat ''Adam'', Num (1 / 100), Num 1]), (3, [Cat ''Adam'', Num (1 / 100), Num 2])]\<rparr>"
  "iloc example_features [0, Suc 0] =
     Inr \<lparr>columns = columns example_features,
          rows = [(0, [Cat ''SGD'', Num (1 / 10), Num 1]), (1, [Cat ''SGD'', Num (1 / 10), Num 2])]\<rparr>"
  "iloc example_labels [2, 3] =
     Inr \<lparr>columns = columns example_labels,
          rows = [(2, [Num (1 / 4), Num 5]), (3, [Num (1 / 2), Num 4])]\<rparr>"
  "iloc example_labels [0, Suc 0] =
     Inr \<lparr>columns = columns example_labels,
          rows = [(0, [Num (1 / 2), Num 3]), (1, [Num (3 / 4), Num 2])]\<rparr>"
  "iloc example_groups [2, 3] =
     Inr \<lparr>columns = columns example_groups, rows = [(2, [Num 2]), (3, [Num 2])]\<rparr>"
  by (simp_all add: iloc_def example_features_def example_labels_def example_groups_def)

lemma example_first_group_split:
  "first_group_split (Some example_groups) 4 = ([2, 3], [0, 1])"
  by (simp add: first_group_split_def example_groups_def upt_rec)

lemma example_resolve_strata:
  "resolve_strata example_labels StrataNone =
     Inr (Column [Num (1 / 2), Num (3 / 4), Num (1 / 4), Num (1 / 2)])"
  by (simp add: resolve_strata_def loc_label_def example_labels_def pick_def)

text \<open>
  A grouped split at test fraction one half: the two rows of the second group train, the
  two rows of the first group test.
\<close>

lemma example_prepare:
  "prepare_dataset_for_training example_library example_features example_labels
     (Some example_groups) (1 / 2) None 5 False StrataNone 0 =
   (Inr (\<lparr>columns = columns example_features,
           rows = [(2, [Cat ''Adam'', Num (1 / 100), Num 1]),
                   (3, [Cat ''Adam'', Num (1 / 100), Num 2])]\<rparr>,
         Some \<lparr>columns = columns example_features,
                rows = [(0, [Cat ''SGD'', Num (1 / 10), Num 1]),
                        (1, [Cat ''SGD'', Num (1 / 10), Num 2])]\<rparr>,
         \<lparr>columns = columns example_labels,
           rows = [(2, [Num (1 / 4), Num 5]), (3, [Num (1 / 2), Num 4])]\<rparr>,
         Some \<lparr>columns = columns example_labels,
                rows = [(0, [Num (1 / 2), Num 3]), (1, [Num (3 / 4), Num 2])]\<rparr>,
         Some \<lparr>columns = columns example_groups, rows = [(2, [Num 2]), (3, [Num 2])]\<rparr>,
         GroupKFold 5), 1)"
proof -
  have fs: "first_split example_library (GroupShuffleSplit 2 None) example_features
              (Column [Num (1 / 2), Num (3 / 4), Num (1 / 4), Num (1 / 2)])
              (Some example_groups) 0 = (Inr ([2, 3], [0, 1]), 1)"
  proof -
    have len: "length (rows example_features) = 4" and ne: "rows example_features \<noteq> []"
      by (simp_all add: example_features_def)
    show ?thesis
      by (simp add: example_library_def len ne example_first_group_split)
  qed
  have cv: "construct_cv example_library (GroupKFold 5) = Inr (GroupKFold 5)"
    by (simp add: construct_cv_def example_library_def)
  show ?thesis
    by (simp add: prepare_dataset_for_training_def example_resolve_strata split_with_groups_def
          fs select_rows_def example_iloc cv return_splits_def)
qed

lemma example_enforce_headers:
  "enforce_headers example_fresh example_features example_labels =
     (Inr (example_features, example_labels),
      example_fresh\<lparr>feature_headers := Some (columns example_features),
                    label_headers := Some (columns example_labels)\<rparr>)"
  by (simp add: enforce_headers_unset example_fresh_eq)

lemma example_pipeline:
  "get_simple_pipeline
     (example_fresh\<lparr>feature_headers := Some (columns example_features),
                    label_headers := Some (columns example_labels)\<rparr>) True =
   Inr \<lparr>onehot_columns = [''Optimizer''], multiout = True,
        estimator = \<lparr>n_estimators = 500, tree_method = ''auto'', n_jobs = 1,
                      xgb_params = default_hyperparams\<rparr>\<rparr>"
  by (simp add: get_simple_pipeline_def example_fresh_eq example_config_space_def
        default_hyperparams_def)

lemma example_train:
  "train example_library self pipe False n iters cv rs xtrain ytrain grp g =
     (Inr (), self\<lparr>model := Some (length (columns ytrain)), trained := True\<rparr>, Suc g)"
  by (simp add: train_def example_library_def)

text \<open>The instance that the first fit of the small dataset leaves.\<close>

lemma example_trained_eq:
  "example_trained =
     \<lparr>config_space = Some example_config_space, estimators_per_output = 500,
      hyperparams = Some default_hyperparams, use_gpu = None, model = Some 2,
      feature_headers = Some [PyStr ''Optimizer'', PyStr ''LearningRate'', PyStr ''epoch''],
      label_headers = Some [PyStr ''Label_0'', PyStr ''Label_1''], trained = True\<rparr>"
proof -
  have cols: "length (columns example_labels) = 2"
    by (simp add: example_labels_def)
  have "example_trained =
          example_fresh\<lparr>feature_headers := Some (columns example_features),
                        label_headers := Some (columns example_labels),
                        model := Some 2, trained := True\<rparr>"
    unfolding example_trained_def fit_def example_enforce_headers
    by (simp add: example_prepare cols example_pipeline example_train)
  then show ?thesis
    by (simp add: example_fresh_eq example_features_def example_labels_def)
qed

lemma example_first_split:
  "first_split example_library sp example_features st (Some example_groups) g =
     (Inr ([2, 3], [0, Suc 0]), Suc g)"
proof -
  have len: "length (rows example_features) = 4" and ne: "rows example_features \<noteq> []"
    by (simp_all add: example_features_def)
  show ?thesis
    by (simp add: example_library_def len ne example_first_group_split)
qed

text \<open>
  The small library accepts every splitter, so the grouped split is the same at every
  test fraction that passes the validation, the fraction 1 included.
\<close>

lemma example_prepare_fraction:
  assumes "0 < test_size" "test_size \<le> 1"
  shows "prepare_dataset_for_training example_library example_features example_labels
     (Some example_groups) test_size random_state 5 stratify StrataNone g =
   (Inr (\<lparr>columns = columns example_features,
           rows = [(2, [Cat ''Adam'', Num (1 / 100), Num 1]),
                   (3, [Cat ''Adam'', Num (1 / 100), Num 2])]\<rparr>,
         Some \<lparr>columns = columns example_features,
                rows = [(0, [Cat ''SGD'', Num (1 / 10), Num 1]),
                        (1, [Cat ''SGD'', Num (1 / 10), Num 2])]\<rparr>,
         \<lparr>columns = columns example_labels,
           rows = [(2, [Num (1 / 4), Num 5]), (3, [Num (1 / 2), Num 4])]\<rparr>,
         Some \<lparr>columns = columns example_labels,
                rows = [(0, [Num (1 / 2), Num 3]), (1, [Num (3 / 4), Num 2])]\<rparr>,
         Some \<lparr>columns = columns example_groups, rows = [(2, [Num 2]), (3, [Num 2])]\<rparr>,
         GroupKFold 5), Suc g)"
proof -
  have cv: "construct_cv example_library (GroupKFold 5) = Inr (GroupKFold 5)"
    by (simp add: construct_cv_def example_library_def)
  from assms show ?thesis
    by (simp add: prepare_dataset_for_training_def example_resolve_strata split_with_groups_def
          example_first_split select_rows_def example_iloc cv return_splits_def)
qed

text \<open>Without groups the same library splits as well, and the return statement fails.\<close>

lemma example_prepare_without_groups:
  assumes "0 < test_size" "test_size \<le> 1"
  shows "prepare_dataset_for_training example_library example_features example_labels None
           test_size random_state 5 stratify StrataNone g =
         (Inl (UnboundLocalError ''groups_train''), Suc g)"
proof -
  have len: "length (rows example_features) = 4" and ne: "rows example_features \<noteq> []"
    by (simp_all add: example_features_def)
  have fs: "first_split example_library sp example_features st None g =
              (Inr ([Suc 0, 2, 3], [0]), Suc g)" for sp st
    by (simp add: example_library_def len ne first_group_split_def upt_rec)
  have il: "\<exists>a. iloc example_features [Suc 0, 2, 3] = Inr a"
           "\<exists>a. iloc example_features [0] = Inr a"
           "\<exists>a. iloc example_labels [Suc 0, 2, 3] = Inr a"
           "\<exists>a. iloc example_labels [0] = Inr a"
    by (simp_all add: iloc_def example_features_def example_labels_def)
  then obtain a b c d where sel:
    "select_rows example_features example_labels [Suc 0, 2, 3] [0] = Inr (a, b, c, d)"
    by (auto simp add: select_rows_def)
  have cv: "construct_cv example_library (KFold 5 False) = Inr (KFold 5 False)"
    by (simp add: construct_cv_def example_library_def)
  from assms show ?thesis
    by (simp add: prepare_dataset_for_training_def example_resolve_strata
          split_without_groups_def fs sel cv return_splits_def)
qed

section \<open>A trained instance holds label headers\<close>

lemma enforce_headers_labels:
  "enforce_headers self features labels = (Inr x, self1) \<Longrightarrow> label_headers self1 \<noteq> None"
  by (auto simp add: enforce_headers_def split: option.splits sum.splits)

lemma enforce_headers_raises:
  "enforce_headers self features labels = (Inl e, self1) \<Longrightarrow>
   trained self1 = trained self \<and> label_headers self1 = label_headers self"
  by (auto simp add: enforce_headers_def split: option.splits sum.splits)

lemma fit_trained_has_label_headers:
  assumes "trained self \<longrightarrow> label_headers self \<noteq> None"
  shows "trained (fst (snd (fit L self features labels groups perform_hpo test_size
            random_state hpo_iters num_cv_splits stratify strata g))) \<longrightarrow>
         label_headers (fst (snd (fit L self features labels groups perform_hpo test_size
            random_state hpo_iters num_cv_splits stratify strata g))) \<noteq> None"
proof -
  obtain r self1 where e: "enforce_headers self features labels = (r, self1)"
    by (cases "enforce_headers self features labels")
  show ?thesis
  proof (cases r)
    case (Inl err)
    with e enforce_headers_raises[of self features labels err self1] assms show ?thesis
      by (simp add: fit_def)
  next
    case (Inr x)
    with e enforce_headers_labels[of self features labels x self1]
      fit_headers_after_enforce[OF e, of L groups perform_hpo test_size random_state hpo_iters
        num_cv_splits stratify strata g]
    show ?thesis by simp
  qed
qed

lemma run_calls_trained_has_label_headers:
  "(trained (fst st) \<longrightarrow> label_headers (fst st) \<noteq> None) \<Longrightarrow>
   trained (fst (run_calls L st calls)) \<longrightarrow> label_headers (fst (run_calls L st calls)) \<noteq> None"
  unfolding run_calls_def
proof (induction calls arbitrary: st)
  case Nil
  then show ?case by simp
next
  case (Cons c calls)
  obtain self g where st: "st = (self, g)" by (cases st)
  have "trained (fst (run_call L st c)) \<longrightarrow> label_headers (fst (run_call L st c)) \<noteq> None"
  proof (cases c)
    case (Fit f l grp hpo ts rs it k sf sa)
    with st Cons.prems fit_trained_has_label_headers[of self L f l grp hpo ts rs it k sf sa g]
    show ?thesis by simp
  next
    case (Predict x)
    with st Cons.prems show ?thesis by simp
  next
    case SetRandomHyperparams
    with st Cons.prems show ?thesis
      by (cases "hyperparams self")
         (simp_all add: set_random_hyperparams_unset set_random_hyperparams_set)
  qed
  from Cons.IH[OF this] show ?case by simp
qed

section \<open>The claims\<close>

text \<open>
  C1. With a test fraction of 0, \<open>prepare_dataset_for_training\<close> is to return the whole
  input as the training set, no test features and no test labels, and a plain or a grouped
  K-fold generator. The code prepares exactly these values and then fails in its return
  statement: the local \<open>groups_train\<close> is read there and was never assigned on this path.
  Every call with a test fraction of 0 ends with \<open>UnboundLocalError\<close> (or with the
  library's error, when it refuses the number of folds), with or without groups; so on
  the small dataset with the default five folds.
\<close>

theorem prepare_without_test_split_raises:
  "prepare_dataset_for_training L features labels groups 0 random_state num_cv_splits stratify
     strata g =
   (Inl (case cv_init L (case groups of None \<Rightarrow> KFold num_cv_splits False
                                       | Some grp \<Rightarrow> GroupKFold num_cv_splits) of
           None \<Rightarrow> UnboundLocalError ''groups_train''
         | Some msg \<Rightarrow> LibraryError msg), g)
   \<and> prepare_dataset_for_training example_library example_features example_labels None 0 None 5
       True StrataNone 0 = (Inl (UnboundLocalError ''groups_train''), 0)
   \<and> prepare_dataset_for_training example_library example_features example_labels
       (Some example_groups) 0 None 5 True StrataNone 0 =
       (Inl (UnboundLocalError ''groups_train''), 0)"
  by (simp add: prepare_zero example_library_def)

text \<open>
  C2. The validation error is to be raised exactly for the test fractions outside
  \<open>[0, 1)\<close>. The code raises it exactly for the fractions above 1 or below 0: the
  fraction 1 passes the check, although the message of the error and the documentation
  of the parameter both give the range as \<open>[0, 1)\<close>. At the fraction 1, with groups, the
  small library splits and the call returns normally.
\<close>

theorem validation_error_iff_above_one_or_negative:
  "(fst (prepare_dataset_for_training L features labels groups test_size random_state
          num_cv_splits stratify strata g) = Inl (ValueError x)
    \<longleftrightarrow> (test_size > 1 \<or> test_size < 0) \<and> x = test_size)
   \<and> (\<exists>r. prepare_dataset_for_training example_library example_features example_labels
            (Some example_groups) 1 None 5 False StrataNone 0 = (Inr r, 1))"
  by (simp add: prepare_validation_error_iff example_prepare_fraction)

text \<open>
  C3. On an instance that has hyperparameters, \<open>set_random_hyperparams\<close> is to draw and
  store a new set. The code draws the tree depth, the minimal child weight and the first
  column fraction, and then evaluates \<open>loguniform(0.001, 0.5)\<close>, a name the module does
  not define: the call raises \<open>NameError\<close>, returns nothing and leaves the stored
  hyperparameters as they were. The constructor has already stored the defaults, so this
  is the outcome of every call on a constructed instance.
\<close>

theorem set_random_hyperparams_raises_name_error:
  "set_random_hyperparams L (self\<lparr>hyperparams := Some hp\<rparr>) g =
     (Inl (NameError ''loguniform''), self\<lparr>hyperparams := Some hp\<rparr>,
      snd (random_uniform L (snd (random_choice L (snd (random_choice L g [1 .. 14])) [1 .. 9]))
             0 1))
   \<and> fst (set_random_hyperparams L (fst (init L cs epo gpu g)) g') = Inl (NameError ''loguniform'')
   \<and> hyperparams (fst (snd (set_random_hyperparams L (fst (init L cs epo gpu g)) g'))) =
       Some default_hyperparams"
  by (simp add: set_random_hyperparams_set init_eq)

text \<open>
  C4. On an instance without hyperparameters, \<open>set_random_hyperparams\<close> returns the fixed
  default configuration and stores it; nothing is drawn.
\<close>

theorem set_random_hyperparams_first_call_defaults:
  "hyperparams self = None \<Longrightarrow>
   set_random_hyperparams L self g =
     (Inr [(''objective'', PyStr ''reg:squarederror''),
           (''booster'', PyStr ''gbtree''),
           (''max_depth'', PyInt 6),
           (''min_child_weight'', PyInt 1),
           (''colsample_bytree'', PyInt 1),
           (''learning_rate'', PyFloat (3 / 10)),
           (''colsample_bylevel'', PyInt 1)],
      self\<lparr>hyperparams :=
             Some [(''objective'', PyStr ''reg:squarederror''),
                   (''booster'', PyStr ''gbtree''),
                   (''max_depth'', PyInt 6),
                   (''min_child_weight'', PyInt 1),
                   (''colsample_bytree'', PyInt 1),
                   (''learning_rate'', PyFloat (3 / 10)),
                   (''colsample_bylevel'', PyInt 1)]\<rparr>,
      g)"
  by (simp add: set_random_hyperparams_unset default_hyperparams_def)

theorem set_random_hyperparams_first_call_defaults_witness:
  "hyperparams (example_fresh\<lparr>hyperparams := None\<rparr>) = None \<and>
   fst (set_random_hyperparams example_library (example_fresh\<lparr>hyperparams := None\<rparr>) 7) =
     Inr [(''objective'', PyStr ''reg:squarederror''),
          (''booster'', PyStr ''gbtree''),
          (''max_depth'', PyInt 6),
          (''min_child_weight'', PyInt 1),
          (''colsample_bytree'', PyInt 1),
          (''learning_rate'', PyFloat (3 / 10)),
          (''colsample_bylevel'', PyInt 1)] \<and>
   fst (snd (set_random_hyperparams example_library (example_fresh\<lparr>hyperparams := None\<rparr>) 7)) =
     example_fresh \<and>
   snd (snd (set_random_hyperparams example_library (example_fresh\<lparr>hyperparams := None\<rparr>) 7)) = 7"
  using set_random_hyperparams_first_call_defaults
          [of "example_fresh\<lparr>hyperparams := None\<rparr>" example_library 7]
  by (simp add: example_fresh_eq default_hyperparams_def)

text \<open>
  C8. For a test fraction strictly between 0 and 1, \<open>prepare_dataset_for_training\<close> is to
  return a train and a test partition of the input rows. Without groups it returns
  nothing: the split is drawn and the rows are selected, and then the return statement
  reads the local \<open>groups_train\<close>, which only the path with groups assigns. Whatever the
  library does, a call without groups ends with an exception; on the small dataset, at
  the fraction one fifth, with \<open>UnboundLocalError\<close>. (The same slip as in C1.)
\<close>

theorem prepare_without_groups_never_returns:
  "(\<exists>e. fst (prepare_dataset_for_training L features labels None test_size random_state
              num_cv_splits stratify strata g) = Inl e)
   \<and> prepare_dataset_for_training example_library example_features example_labels None (1 / 5)
       None 5 False StrataNone 0 = (Inl (UnboundLocalError ''groups_train''), 1)"
  by (simp add: prepare_without_groups_raises example_prepare_without_groups)

text \<open>
  C5. Once column orders are stored, they stay: after any sequence of later calls
  (\<open>fit\<close>, \<open>predict\<close>, \<open>set_random_hyperparams\<close>, returning or raising) the instance
  holds the same feature and label headers. On the instance these calls leave,
  \<open>predict\<close> and \<open>fit\<close> read their input tables only through the selection of the
  stored columns, so two inputs with the same selection (columns reordered, columns
  added) give the same outcome; on a table with unique column labels the selection has
  exactly the stored column order; and a table that \<open>predict\<close> returns has exactly the
  stored label columns.
\<close>

theorem stored_column_orders_are_kept:
  assumes "feature_headers self = Some fh" and "label_headers self = Some lh"
    and "run_calls L (self, g) calls = (self', g')"
  shows "feature_headers self' = Some fh \<and> label_headers self' = Some lh \<and>
         (\<forall>features y. predict L self' features = Inr y \<longrightarrow> columns y = lh) \<and>
         (\<forall>features features'.
            loc_columns features fh = loc_columns features' fh \<longrightarrow>
            predict L self' features = predict L self' features') \<and>
         (\<forall>features features' labels labels' groups perform_hpo test_size random_state
            hpo_iters num_cv_splits stratify strata.
            loc_columns features fh = loc_columns features' fh \<longrightarrow>
            loc_columns labels lh = loc_columns labels' lh \<longrightarrow>
            fit L self' features labels groups perform_hpo test_size random_state hpo_iters
              num_cv_splits stratify strata g' =
            fit L self' features' labels' groups perform_hpo test_size random_state hpo_iters
              num_cv_splits stratify strata g') \<and>
         (\<forall>df df'. distinct (columns df) \<longrightarrow> loc_columns df fh = Inr df' \<longrightarrow> columns df' = fh)"
proof -
  from run_calls_keep_headers[of "(self, g)" fh lh L calls] assms
  have kept: "feature_headers self' = Some fh" "label_headers self' = Some lh"
    by simp_all
  from kept show ?thesis
    by (auto intro: predict_columns predict_selection fit_selection loc_columns_order)
qed

theorem stored_column_orders_are_kept_witness:
  "feature_headers example_trained =
     Some [PyStr ''Optimizer'', PyStr ''LearningRate'', PyStr ''epoch''] \<and>
   label_headers example_trained = Some [PyStr ''Label_0'', PyStr ''Label_1''] \<and>
   feature_headers
     (fst (run_calls example_library (example_trained, 0)
        [Predict example_features_shuffled,
         Fit example_features_shuffled example_labels (Some example_groups) False (1 / 2)
           None 10 5 False StrataNone])) =
     Some [PyStr ''Optimizer'', PyStr ''LearningRate'', PyStr ''epoch''] \<and>
   label_headers
     (fst (run_calls example_library (example_trained, 0)
        [Predict example_features_shuffled,
         Fit example_features_shuffled example_labels (Some example_groups) False (1 / 2)
           None 10 5 False StrataNone])) =
     Some [PyStr ''Label_0'', PyStr ''Label_1''] \<and>
   predict example_library
     (fst (run_calls example_library (example_trained, 0)
        [Predict example_features_shuffled,
         Fit example_features_shuffled example_labels (Some example_groups) False (1 / 2)
           None 10 5 False StrataNone])) example_features_shuffled =
   predict example_library
     (fst (run_calls example_library (example_trained, 0)
        [Predict example_features_shuffled,
         Fit example_features_shuffled example_labels (Some example_groups) False (1 / 2)
           None 10 5 False StrataNone])) example_features"
proof -
  let ?calls = "[Predict example_features_shuffled,
         Fit example_features_shuffled example_labels (Some example_groups) False (1 / 2)
           None 10 5 False StrataNone]"
  let ?fh = "[PyStr ''Optimizer'', PyStr ''LearningRate'', PyStr ''epoch'']"
  let ?lh = "[PyStr ''Label_0'', PyStr ''Label_1'']"
  have fh: "feature_headers example_trained = Some ?fh"
    and lh: "label_headers example_trained = Some ?lh"
    by (simp_all add: example_trained_eq)
  have run: "run_calls example_library (example_trained, 0) ?calls =
      (fst (run_calls example_library (example_trained, 0) ?calls),
       snd (run_calls example_library (example_trained, 0) ?calls))"
    by simp
  have sel: "loc_columns example_features_shuffled ?fh = loc_columns example_features ?fh"
    by (simp add: loc_columns_def example_features_shuffled_def example_features_def pick_def)
  from stored_column_orders_are_kept[OF fh lh run] sel fh lh show ?thesis
    by blast
qed

text \<open>
  C10. \<open>fit\<close> is not atomic. On an instance without stored column orders (such as a
  fresh one), a call with a test fraction above 1 or below 0 stores the column orders of
  its input and only then raises the validation error; every later call keeps the orders
  that the failed call stored.
\<close>

theorem failed_fit_fixes_column_orders:
  assumes "feature_headers self = None" and "label_headers self = None"
    and "test_size > 1 \<or> test_size < 0"
  shows "fit L self features labels groups perform_hpo test_size random_state hpo_iters
           num_cv_splits stratify strata g =
           (Inl (ValueError test_size),
            self\<lparr>feature_headers := Some (columns features),
                  label_headers := Some (columns labels)\<rparr>, g) \<and>
         (\<forall>calls.
            feature_headers (fst (run_calls L
              (snd (fit L self features labels groups perform_hpo test_size random_state
                      hpo_iters num_cv_splits stratify strata g)) calls)) =
              Some (columns features) \<and>
            label_headers (fst (run_calls L
              (snd (fit L self features labels groups perform_hpo test_size random_state
                      hpo_iters num_cv_splits stratify strata g)) calls)) =
              Some (columns labels))"
proof -
  from assms(3) have prep: "prepare_dataset_for_training L features labels groups test_size
      random_state num_cv_splits stratify strata g = (Inl (ValueError test_size), g)"
    by (auto simp add: prepare_dataset_for_training_def)
  have result: "fit L self features labels groups perform_hpo test_size random_state hpo_iters
           num_cv_splits stratify strata g =
           (Inl (ValueError test_size),
            self\<lparr>feature_headers := Some (columns features),
                  label_headers := Some (columns labels)\<rparr>, g)"
    by (simp add: fit_def enforce_headers_unset[OF assms(1,2)] prep)
  show ?thesis
    unfolding result
    using run_calls_keep_headers
      [of "(self\<lparr>feature_headers := Some (columns features),
                  label_headers := Some (columns labels)\<rparr>, g)"
          "columns features" "columns labels" L]
    by simp
qed

theorem failed_fit_fixes_column_orders_witness:
  "feature_headers example_fresh = None \<and> label_headers example_fresh = None \<and>
   fit example_library example_fresh example_features_shuffled example_labels
     (Some example_groups) True (3 / 2) None 10 5 True StrataNone 0 =
     (Inl (ValueError (3 / 2)),
      example_fresh\<lparr>feature_headers :=
                      Some [PyStr ''epoch'', PyStr ''Extra'', PyStr ''Optimizer'',
                            PyStr ''LearningRate''],
                    label_headers := Some [PyStr ''Label_0'', PyStr ''Label_1'']\<rparr>, 0) \<and>
   feature_headers (fst (run_calls example_library
     (snd (fit example_library example_fresh example_features_shuffled example_labels
             (Some example_groups) True (3 / 2) None 10 5 True StrataNone 0))
     [Fit example_features example_labels (Some example_groups) False (1 / 2) None 10 5 False
        StrataNone])) =
     Some [PyStr ''epoch'', PyStr ''Extra'', PyStr ''Optimizer'', PyStr ''LearningRate'']"
proof -
  have none: "feature_headers example_fresh = None" "label_headers example_fresh = None"
    by (simp_all add: example_fresh_eq)
  have range: "(3 / 2 :: real) > 1 \<or> (3 / 2 :: real) < 0"
    by simp
  have cols: "columns example_features_shuffled =
      [PyStr ''epoch'', PyStr ''Extra'', PyStr ''Optimizer'', PyStr ''LearningRate'']"
    "columns example_labels = [PyStr ''Label_0'', PyStr ''Label_1'']"
    by (simp_all add: example_features_shuffled_def example_labels_def)
  from failed_fit_fixes_column_orders[OF none range, of example_library
      example_features_shuffled example_labels "Some example_groups" True None 10 5 True
      StrataNone 0] none
  show ?thesis
    unfolding cols by blast
qed

end
